theory Spec2Isabelle
  imports Complex_Main "HOL-Library.Log_Nat" "HOL-Library.Signed_Division"
begin

section \<open>Go's float64: IEEE 754 binary64, round to nearest, ties to even\<close>

text \<open>
  Every number of \<^verbatim>\<open>main.go\<close> except the repetition count, the pool geometry and the
  duration is a \<^verbatim>\<open>float64\<close>. A value is a NaN, an infinity with its sign, or a finite
  number: a sign bit (\<open>True\<close> for negative) and a magnitude, so that the two zeros are
  \<open>Finite False 0\<close> and \<open>Finite True 0\<close>. The magnitude is kept as the exact rational
  it denotes. Each operation computes the exact result and rounds it once, as the
  standard's round-to-nearest-even does; operations are rounded one by one, as Go's
  compiler for amd64 does (no fused multiply-add).
\<close>

datatype f64 = Finite bool rat | Inf bool | NaN

definition pow2i :: "int \<Rightarrow> rat" where
  "pow2i e = (if 0 \<le> e then 2 ^ nat e else 1 / 2 ^ nat (- e))"

text \<open>\<open>flog2 a\<close> is the exponent of the binade of \<open>a > 0\<close>: \<open>2 ^ flog2 a \<le> a < 2 ^ (flog2 a + 1)\<close>.\<close>

definition flog2 :: "rat \<Rightarrow> int" where
  "flog2 a = (if 1 \<le> a then bitlen \<lfloor>a\<rfloor> - 1 else - bitlen (\<lceil>1 / a\<rceil> - 1))"

definition round_half_even :: "rat \<Rightarrow> int" where
  "round_half_even q =
     (let n = \<lfloor>q\<rfloor>; r = q - of_int n
      in if r < 1 / 2 then n else if 1 / 2 < r then n + 1 else if even n then n else n + 1)"

text \<open>
  Rounding of an exact magnitude \<open>a \<ge> 0\<close> with sign \<open>s\<close>: 53 significant bits, the
  exponent of the unit in the last place never below \<open>-1074\<close> (subnormal numbers, and
  underflow to a signed zero), overflow to infinity from \<open>2 ^ 1024\<close> on.
\<close>

definition rnd :: "bool \<Rightarrow> rat \<Rightarrow> f64" where
  "rnd s a =
     (if a = 0 then Finite s 0
      else let e = max (flog2 a) (- 1022);
               u = pow2i (e - 52);
               r = of_int (round_half_even (a / u)) * u
           in if pow2i 1024 \<le> r then Inf s else Finite s r)"

fun is_finite :: "f64 \<Rightarrow> bool" where
  "is_finite (Finite s a) = True"
| "is_finite (Inf s) = False"
| "is_finite NaN = False"

text \<open>The exact value of a finite float.\<close>

fun sval :: "bool \<Rightarrow> rat \<Rightarrow> rat" where
  "sval s a = (if s then - a else a)"

text \<open>An untyped numeric constant of Go, converted to float64 where it is used.\<close>

definition f64_const :: "rat \<Rightarrow> f64" where
  "f64_const c = rnd (c < 0) \<bar>c\<bar>"

text \<open>The conversion \<^verbatim>\<open>float64(n)\<close> of an integer.\<close>

definition f64_of_int :: "int \<Rightarrow> f64" where
  "f64_of_int n = rnd (n < 0) (of_int \<bar>n\<bar>)"

fun fadd :: "f64 \<Rightarrow> f64 \<Rightarrow> f64" where
  "fadd NaN y = NaN"
| "fadd x NaN = NaN"
| "fadd (Inf s) (Inf t) = (if s = t then Inf s else NaN)"
| "fadd (Inf s) (Finite t b) = Inf s"
| "fadd (Finite s a) (Inf t) = Inf t"
| "fadd (Finite s a) (Finite t b) =
     (let v = sval s a + sval t b
      in if v = 0 then Finite (s \<and> t) 0 else rnd (v < 0) \<bar>v\<bar>)"

fun fmul :: "f64 \<Rightarrow> f64 \<Rightarrow> f64" where
  "fmul NaN y = NaN"
| "fmul x NaN = NaN"
| "fmul (Inf s) (Inf t) = Inf (s \<noteq> t)"
| "fmul (Inf s) (Finite t b) = (if b = 0 then NaN else Inf (s \<noteq> t))"
| "fmul (Finite s a) (Inf t) = (if a = 0 then NaN else Inf (s \<noteq> t))"
| "fmul (Finite s a) (Finite t b) = rnd (s \<noteq> t) (a * b)"

fun fdiv :: "f64 \<Rightarrow> f64 \<Rightarrow> f64" where
  "fdiv NaN y = NaN"
| "fdiv x NaN = NaN"
| "fdiv (Inf s) (Inf t) = NaN"
| "fdiv (Inf s) (Finite t b) = Inf (s \<noteq> t)"
| "fdiv (Finite s a) (Inf t) = Finite (s \<noteq> t) 0"
| "fdiv (Finite s a) (Finite t b) =
     (if b = 0 then (if a = 0 then NaN else Inf (s \<noteq> t)) else rnd (s \<noteq> t) (a / b))"

text \<open>Go's \<^verbatim>\<open>==\<close> on float64: a NaN equals nothing, the two zeros are equal.\<close>

fun f64_eq :: "f64 \<Rightarrow> f64 \<Rightarrow> bool" where
  "f64_eq (Finite s a) (Finite t b) = (a = b \<and> (s = t \<or> a = 0))"
| "f64_eq (Inf s) (Inf t) = (s = t)"
| "f64_eq x y = False"

subsection \<open>\<^verbatim>\<open>math.Pow(x, 2)\<close>\<close>

text \<open>
  The standard library's \<^verbatim>\<open>math.Pow\<close> at the exponent 2, the only one the program
  uses: the special cases first (\<open>x = 1\<close>, NaN, a zero, an infinity), then
  \<^verbatim>\<open>Frexp\<close> splits \<open>x\<close> into a fraction in \<open>[1/2, 1)\<close> and an exponent, the fraction is
  squared (one rounding), and \<^verbatim>\<open>Ldexp\<close> scales the square back (a second rounding when
  the result is subnormal).
\<close>

definition Frexp :: "rat \<Rightarrow> rat \<times> int" where
  "Frexp a = (let e = flog2 a + 1 in (a / pow2i e, e))"

fun Ldexp :: "f64 \<Rightarrow> int \<Rightarrow> f64" where
  "Ldexp (Finite s a) e = rnd s (a * pow2i e)"
| "Ldexp x e = x"

fun math_Pow2 :: "f64 \<Rightarrow> f64" where
  "math_Pow2 NaN = NaN"
| "math_Pow2 (Inf s) = Inf False"
| "math_Pow2 (Finite s a) =
     (if a = 1 \<and> \<not> s then Finite False 1
      else if a = 0 then Finite False 0
      else let (x1, xe) = Frexp a
           in Ldexp (fmul (Finite s x1) (Finite s x1)) (2 * xe))"

subsection \<open>\<^verbatim>\<open>time.Duration\<close>\<close>

text \<open>
  A duration is a signed count of nanoseconds (an int64 in Go; here any integer, and
  every property below holds for all of them). \<^verbatim>\<open>Hours\<close> and \<^verbatim>\<open>Minutes\<close> are the
  standard library's: the whole part by truncating integer division, the rest divided
  in float64.
\<close>

type_synonym Duration = int

definition Minute :: Duration where "Minute = 60 * 1000000000"
definition Hour :: Duration where "Hour = 60 * Minute"

definition Hours :: "Duration \<Rightarrow> f64" where
  "Hours d =
     (let hour = d sdiv Hour; nsec = d smod Hour
      in fadd (f64_of_int hour) (fdiv (f64_of_int nsec) (f64_const (60 * 60 * 1000000000))))"

definition Minutes :: "Duration \<Rightarrow> f64" where
  "Minutes d =
     (let min = d sdiv Minute; nsec = d smod Minute
      in fadd (f64_of_int min) (fdiv (f64_of_int nsec) (f64_const (60 * 1000000000))))"

section \<open>The trainings of \<^verbatim>\<open>main.go\<close>\<close>

definition MInKm :: rat where "MInKm = 1000"
definition MinInHours :: rat where "MinInHours = 60"
definition LenStep_const :: rat where "LenStep_const = 65 / 100"
definition CmInM :: rat where "CmInM = 100"

text \<open>
  A struct embedded in another one is a field of it; its selector is written with the
  name of the outer type (\<open>Running_Training r\<close> for \<^verbatim>\<open>r.Training\<close>), and a promoted
  method is the method of the embedded \<^verbatim>\<open>Training\<close> applied to that field. Go's
  \<^verbatim>\<open>int\<close> is \<open>int\<close>: the program converts the integers to float64 and computes
  nothing on them before.
\<close>

record Training =
  TrainingType :: string
  Action :: int
  LenStep :: f64
  Duration :: Duration
  Weight :: f64

definition Training_distance :: "Training \<Rightarrow> f64" where
  "Training_distance t = fdiv (fmul (f64_of_int (Action t)) (LenStep t)) (f64_const MInKm)"

definition Training_meanSpeed :: "Training \<Rightarrow> f64" where
  "Training_meanSpeed t =
     (let timeOfTrainingInHours = Hours (Duration t)
      in if f64_eq timeOfTrainingInHours (f64_const 0) then f64_const 0
         else fdiv (Training_distance t) timeOfTrainingInHours)"

definition Training_Calories :: "Training \<Rightarrow> f64" where
  "Training_Calories t = f64_const 0"

record InfoMessage =
  InfoMessage_Training :: Training
  Distance :: f64
  Speed :: f64
  Calories :: f64

definition Training_TrainingInfo :: "Training \<Rightarrow> InfoMessage" where
  "Training_TrainingInfo t =
     \<lparr>InfoMessage_Training = t, Distance = Training_distance t, Speed = Training_meanSpeed t,
      Calories = Training_Calories t\<rparr>"

text \<open>
  \<^verbatim>\<open>InfoMessage.String\<close>: one \<^verbatim>\<open>Sprintf\<close> with the verbs \<^verbatim>\<open>%s\<close>, \<^verbatim>\<open>%v\<close> and three times
  \<^verbatim>\<open>%.2f\<close>. The text between the verbs is Russian; it is given by its UTF-8 bytes, as
  a Go string holds it.
\<close>

definition label_type :: string where
  "label_type = [CHR 0xD0, CHR 0xA2, CHR 0xD0, CHR 0xB8, CHR 0xD0, CHR 0xBF, CHR 0x20, CHR 0xD1,
      CHR 0x82, CHR 0xD1, CHR 0x80, CHR 0xD0, CHR 0xB5, CHR 0xD0, CHR 0xBD, CHR 0xD0,
      CHR 0xB8, CHR 0xD1, CHR 0x80, CHR 0xD0, CHR 0xBE, CHR 0xD0, CHR 0xB2, CHR 0xD0,
      CHR 0xBA, CHR 0xD0, CHR 0xB8, CHR 0x3A, CHR 0x20]"

definition label_duration :: string where
  "label_duration = [CHR 0xD0, CHR 0x94, CHR 0xD0, CHR 0xBB, CHR 0xD0, CHR 0xB8, CHR 0xD1, CHR 0x82,
      CHR 0xD0, CHR 0xB5, CHR 0xD0, CHR 0xBB, CHR 0xD1, CHR 0x8C, CHR 0xD0, CHR 0xBD,
      CHR 0xD0, CHR 0xBE, CHR 0xD1, CHR 0x81, CHR 0xD1, CHR 0x82, CHR 0xD1, CHR 0x8C,
      CHR 0x3A, CHR 0x20]"

definition unit_duration :: string where
  "unit_duration = [CHR 0x20, CHR 0xD0, CHR 0xBC, CHR 0xD0, CHR 0xB8, CHR 0xD0, CHR 0xBD]"

definition label_distance :: string where
  "label_distance = [CHR 0xD0, CHR 0x94, CHR 0xD0, CHR 0xB8, CHR 0xD1, CHR 0x81, CHR 0xD1, CHR 0x82,
      CHR 0xD0, CHR 0xB0, CHR 0xD0, CHR 0xBD, CHR 0xD1, CHR 0x86, CHR 0xD0, CHR 0xB8,
      CHR 0xD1, CHR 0x8F, CHR 0x3A, CHR 0x20]"

definition unit_distance :: string where
  "unit_distance = [CHR 0x20, CHR 0xD0, CHR 0xBA, CHR 0xD0, CHR 0xBC, CHR 0x2E]"

definition label_speed :: string where
  "label_speed = [CHR 0xD0, CHR 0xA1, CHR 0xD1, CHR 0x80, CHR 0x2E, CHR 0x20, CHR 0xD1, CHR 0x81,
      CHR 0xD0, CHR 0xBA, CHR 0xD0, CHR 0xBE, CHR 0xD1, CHR 0x80, CHR 0xD0, CHR 0xBE,
      CHR 0xD1, CHR 0x81, CHR 0xD1, CHR 0x82, CHR 0xD1, CHR 0x8C, CHR 0x3A, CHR 0x20]"

definition unit_speed :: string where
  "unit_speed = [CHR 0x20, CHR 0xD0, CHR 0xBA, CHR 0xD0, CHR 0xBC, CHR 0x2F, CHR 0xD1, CHR 0x87]"

definition label_calories :: string where
  "label_calories = [CHR 0xD0, CHR 0x9F, CHR 0xD0, CHR 0xBE, CHR 0xD1, CHR 0x82, CHR 0xD1, CHR 0x80,
      CHR 0xD0, CHR 0xB0, CHR 0xD1, CHR 0x87, CHR 0xD0, CHR 0xB5, CHR 0xD0, CHR 0xBD,
      CHR 0xD0, CHR 0xBE, CHR 0x20, CHR 0xD0, CHR 0xBA, CHR 0xD0, CHR 0xBA, CHR 0xD0,
      CHR 0xB0, CHR 0xD0, CHR 0xBB, CHR 0x3A, CHR 0x20]"

text \<open>Decimal digits of a natural number, most significant first.\<close>

definition digit_char :: "nat \<Rightarrow> char" where
  "digit_char n = ''0123456789'' ! n"

fun decimal :: "nat \<Rightarrow> string" where
  "decimal n =
     (if n < 10 then [digit_char n] else decimal (n div 10) @ [digit_char (n mod 10)])"

declare decimal.simps [simp del]

text \<open>
  The verb \<^verbatim>\<open>%.2f\<close> on a float64: the exact value rounded to hundredths (ties to
  even), a minus sign when the sign bit is set, at least one digit before the point and
  two after it; \<^verbatim>\<open>NaN\<close>, \<^verbatim>\<open>+Inf\<close> and \<^verbatim>\<open>-Inf\<close> for the values that are not numbers.
\<close>

fun fmt_2f :: "f64 \<Rightarrow> string" where
  "fmt_2f NaN = ''NaN''"
| "fmt_2f (Inf s) = (if s then ''-Inf'' else ''+Inf'')"
| "fmt_2f (Finite s a) =
     (let n = nat (round_half_even (a * 100))
      in (if s then ''-'' else []) @ decimal (n div 100) @ ''.'' @
         [digit_char (n mod 100 div 10), digit_char (n mod 10)])"

text \<open>
  The verb \<^verbatim>\<open>%v\<close> on a float64 prints the shortest decimal text that reads back as the
  same float. That conversion belongs to the standard library and no property below
  depends on which digits it prints, so it is the parameter \<open>fmt_v\<close>.
\<close>

definition InfoMessage_String :: "(f64 \<Rightarrow> string) \<Rightarrow> InfoMessage \<Rightarrow> string" where
  "InfoMessage_String fmt_v i =
     label_type @ TrainingType (InfoMessage_Training i) @ [CHR 0x0A] @
     label_duration @ fmt_v (Minutes (Duration (InfoMessage_Training i))) @ unit_duration @ [CHR 0x0A] @
     label_distance @ fmt_2f (Distance i) @ unit_distance @ [CHR 0x0A] @
     label_speed @ fmt_2f (Speed i) @ unit_speed @ [CHR 0x0A] @
     label_calories @ fmt_2f (Calories i) @ [CHR 0x0A]"

subsection \<open>Running\<close>

definition CaloriesMeanSpeedMultiplier :: rat where "CaloriesMeanSpeedMultiplier = 18"
definition CaloriesMeanSpeedShift :: rat where "CaloriesMeanSpeedShift = 179 / 100"

record Running =
  Running_Training :: Training

definition Running_Calories :: "Running \<Rightarrow> f64" where
  "Running_Calories r =
     (let runnigMeanSpeed = Training_meanSpeed (Running_Training r);
          runningTimeInMinutes = fmul (Hours (Duration (Running_Training r))) (f64_const MinInHours);
          runningMeanSpeedModifier =
            fadd (fmul (f64_const CaloriesMeanSpeedMultiplier) runnigMeanSpeed)
                 (f64_const CaloriesMeanSpeedShift)
      in fmul (fdiv (fmul runningMeanSpeedModifier (Weight (Running_Training r))) (f64_const MInKm))
              runningTimeInMinutes)"

definition Running_TrainingInfo :: "Running \<Rightarrow> InfoMessage" where
  "Running_TrainingInfo r =
     \<lparr>InfoMessage_Training = Running_Training r,
      Distance = Training_distance (Running_Training r),
      Speed = Training_meanSpeed (Running_Training r),
      Calories = Running_Calories r\<rparr>"

subsection \<open>Walking\<close>

definition CaloriesWeightMultiplier :: rat where "CaloriesWeightMultiplier = 35 / 1000"
definition CaloriesSpeedHeightMultiplier :: rat where "CaloriesSpeedHeightMultiplier = 29 / 1000"
definition KmHInMsec :: rat where "KmHInMsec = 278 / 1000"

record Walking =
  Walking_Training :: Training
  Height :: f64

definition Walking_Calories :: "Walking \<Rightarrow> f64" where
  "Walking_Calories w =
     (let walkingMeanSpeedInMetresPerSecond =
            fmul (Training_meanSpeed (Walking_Training w)) (f64_const KmHInMsec);
          heightInMetres = fdiv (Height w) (f64_const CmInM);
          trainingTimeInMinutes = fmul (Hours (Duration (Walking_Training w))) (f64_const MinInHours);
          firstWeightModifier = fmul (f64_const CaloriesWeightMultiplier) (Weight (Walking_Training w));
          secondWeightModifier =
            fmul (f64_const CaloriesSpeedHeightMultiplier) (Weight (Walking_Training w));
          walkingSpeedModifier = fdiv (math_Pow2 walkingMeanSpeedInMetresPerSecond) heightInMetres
      in fmul (fadd firstWeightModifier (fmul walkingSpeedModifier secondWeightModifier))
              trainingTimeInMinutes)"

definition Walking_TrainingInfo :: "Walking \<Rightarrow> InfoMessage" where
  "Walking_TrainingInfo w =
     \<lparr>InfoMessage_Training = Walking_Training w,
      Distance = Training_distance (Walking_Training w),
      Speed = Training_meanSpeed (Walking_Training w),
      Calories = Walking_Calories w\<rparr>"

subsection \<open>Swimming\<close>

definition SwimmingLenStep :: rat where "SwimmingLenStep = 138 / 100"
definition SwimmingCaloriesMeanSpeedShift :: rat where "SwimmingCaloriesMeanSpeedShift = 11 / 10"
definition SwimmingCaloriesWeightMultiplier :: rat where "SwimmingCaloriesWeightMultiplier = 2"

record Swimming =
  Swimming_Training :: Training
  LengthPool :: int
  CountPool :: int

definition Swimming_meanSpeed :: "Swimming \<Rightarrow> f64" where
  "Swimming_meanSpeed s =
     (let timeOfTrainingInHours = Hours (Duration (Swimming_Training s))
      in if f64_eq timeOfTrainingInHours (f64_const 0) then f64_const 0
         else fdiv (fdiv (fmul (f64_of_int (LengthPool s)) (f64_of_int (CountPool s)))
                         (f64_const MInKm))
                   timeOfTrainingInHours)"

definition Swimming_Calories :: "Swimming \<Rightarrow> f64" where
  "Swimming_Calories s =
     (let swimmingMeanSpeed = Swimming_meanSpeed s;
          trainingTime = Hours (Duration (Swimming_Training s))
      in fmul (fmul (fmul (fadd swimmingMeanSpeed (f64_const SwimmingCaloriesMeanSpeedShift))
                          (f64_const SwimmingCaloriesWeightMultiplier))
                    (Weight (Swimming_Training s)))
              trainingTime)"

definition Swimming_TrainingInfo :: "Swimming \<Rightarrow> InfoMessage" where
  "Swimming_TrainingInfo s =
     \<lparr>InfoMessage_Training = Swimming_Training s,
      Distance = Training_distance (Swimming_Training s),
      Speed = Swimming_meanSpeed s,
      Calories = Swimming_Calories s\<rparr>"

subsection \<open>The interface \<^verbatim>\<open>CaloriesCalculator\<close> and \<^verbatim>\<open>ReadData\<close>\<close>

text \<open>
  The types of the package with both methods of the interface: the three trainings, the
  base \<^verbatim>\<open>Training\<close>, and \<^verbatim>\<open>InfoMessage\<close>, to which the methods of its embedded
  \<^verbatim>\<open>Training\<close> are promoted.
\<close>

datatype CaloriesCalculator =
  OfTraining Training
| OfInfoMessage InfoMessage
| OfRunning Running
| OfWalking Walking
| OfSwimming Swimming

fun CaloriesCalculator_Calories :: "CaloriesCalculator \<Rightarrow> f64" where
  "CaloriesCalculator_Calories (OfTraining t) = Training_Calories t"
| "CaloriesCalculator_Calories (OfInfoMessage i) = Training_Calories (InfoMessage_Training i)"
| "CaloriesCalculator_Calories (OfRunning r) = Running_Calories r"
| "CaloriesCalculator_Calories (OfWalking w) = Walking_Calories w"
| "CaloriesCalculator_Calories (OfSwimming s) = Swimming_Calories s"

fun CaloriesCalculator_TrainingInfo :: "CaloriesCalculator \<Rightarrow> InfoMessage" where
  "CaloriesCalculator_TrainingInfo (OfTraining t) = Training_TrainingInfo t"
| "CaloriesCalculator_TrainingInfo (OfInfoMessage i) = Training_TrainingInfo (InfoMessage_Training i)"
| "CaloriesCalculator_TrainingInfo (OfRunning r) = Running_TrainingInfo r"
| "CaloriesCalculator_TrainingInfo (OfWalking w) = Walking_TrainingInfo w"
| "CaloriesCalculator_TrainingInfo (OfSwimming s) = Swimming_TrainingInfo s"

definition ReadData :: "(f64 \<Rightarrow> string) \<Rightarrow> CaloriesCalculator \<Rightarrow> string" where
  "ReadData fmt_v training =
     (let calories = CaloriesCalculator_Calories training;
          info = CaloriesCalculator_TrainingInfo training;
          info = info\<lparr>Calories := calories\<rparr>
      in InfoMessage_String fmt_v info)"

subsection \<open>The three trainings of \<^verbatim>\<open>main\<close>\<close>

definition main_swimming :: Swimming where
  "main_swimming =
     \<lparr>Swimming_Training =
        \<lparr>TrainingType = [CHR 0xD0, CHR 0x9F, CHR 0xD0, CHR 0xBB, CHR 0xD0, CHR 0xB0, CHR 0xD0, CHR 0xB2,
      CHR 0xD0, CHR 0xB0, CHR 0xD0, CHR 0xBD, CHR 0xD0, CHR 0xB8, CHR 0xD0, CHR 0xB5],
         Action = 2000, LenStep = f64_const SwimmingLenStep, Duration = 90 * Minute,
         Weight = f64_const 85\<rparr>,
      LengthPool = 50, CountPool = 5\<rparr>"

definition main_walking :: Walking where
  "main_walking =
     \<lparr>Walking_Training =
        \<lparr>TrainingType = [CHR 0xD0, CHR 0xA5, CHR 0xD0, CHR 0xBE, CHR 0xD0, CHR 0xB4, CHR 0xD1, CHR 0x8C,
      CHR 0xD0, CHR 0xB1, CHR 0xD0, CHR 0xB0],
         Action = 20000, LenStep = f64_const LenStep_const, Duration = 3 * Hour + 45 * Minute,
         Weight = f64_const 85\<rparr>,
      Height = f64_const 185\<rparr>"

definition main_running :: Running where
  "main_running =
     \<lparr>Running_Training =
        \<lparr>TrainingType = [CHR 0xD0, CHR 0x91, CHR 0xD0, CHR 0xB5, CHR 0xD0, CHR 0xB3],
         Action = 5000, LenStep = f64_const LenStep_const, Duration = 30 * Minute,
         Weight = f64_const 85\<rparr>\<rparr>"

section \<open>Notions the properties are stated with\<close>

text \<open>The \<^verbatim>\<open>Training\<close> embedded in a value of the interface.\<close>

fun embedded :: "CaloriesCalculator \<Rightarrow> Training" where
  "embedded (OfTraining t) = t"
| "embedded (OfInfoMessage i) = InfoMessage_Training i"
| "embedded (OfRunning r) = Running_Training r"
| "embedded (OfWalking w) = Walking_Training w"
| "embedded (OfSwimming s) = Swimming_Training s"

text \<open>A float is a number and lies within \<open>tol\<close> of the exact value \<open>c\<close>.\<close>

fun close_to :: "f64 \<Rightarrow> rat \<Rightarrow> rat \<Rightarrow> bool" where
  "close_to (Finite s a) c tol = (\<bar>sval s a - c\<bar> \<le> tol)"
| "close_to x c tol = False"

text \<open>
  A text with exactly two decimal digits: an optional minus sign, one digit or more, a
  point, two digits.
\<close>

definition digit :: "char \<Rightarrow> bool" where
  "digit c = (c \<in> set ''0123456789'')"

fun two_decimals_rev :: "string \<Rightarrow> bool" where
  "two_decimals_rev (d2 # d1 # p # ip) =
     (digit d2 \<and> digit d1 \<and> p = CHR ''.'' \<and> ip \<noteq> [] \<and> list_all digit ip)"
| "two_decimals_rev r = False"

definition two_decimals :: "string \<Rightarrow> bool" where
  "two_decimals s =
     two_decimals_rev (rev (case s of [] \<Rightarrow> [] | c # r \<Rightarrow> if c = CHR ''-'' then r else s))"

text \<open>The number of lines of a text: the number of its newline characters.\<close>

definition newlines :: "string \<Rightarrow> nat" where
  "newlines s = length (filter (\<lambda>c. c = CHR 0x0A) s)"

text \<open>
  A float with sign \<open>s\<close> and a magnitude of \<open>b\<close> at least: an infinity, or a number
  not below \<open>b\<close> in absolute value.
\<close>

fun mag_ge :: "rat \<Rightarrow> bool \<Rightarrow> f64 \<Rightarrow> bool" where
  "mag_ge b s (Finite t r) = (t = s \<and> b \<le> r)"
| "mag_ge b s (Inf t) = (t = s)"
| "mag_ge b s NaN = False"

text \<open>Inputs at which the properties are evaluated.\<close>

definition training_zero_duration :: Training where
  "training_zero_duration =
     \<lparr>TrainingType = [], Action = 5000, LenStep = f64_const LenStep_const, Duration = 0,
      Weight = f64_const 85\<rparr>"

definition training_no_steps :: Training where
  "training_no_steps =
     \<lparr>TrainingType = [], Action = 0, LenStep = f64_const LenStep_const, Duration = 30 * Minute,
      Weight = f64_const 85\<rparr>"

definition training_inf_step :: Training where
  "training_inf_step =
     \<lparr>TrainingType = [], Action = 0, LenStep = Inf False, Duration = 30 * Minute,
      Weight = f64_const 85\<rparr>"

definition walking_zero_height :: Walking where
  "walking_zero_height =
     \<lparr>Walking_Training = Walking_Training main_walking, Height = Finite False 0\<rparr>"

section \<open>Evaluation of the float operations on numerals\<close>

lemma floor_rat_numeral: "\<lfloor>numeral a / numeral b :: rat\<rfloor> = numeral a div numeral b"
  using floor_divide_of_int_eq [of "numeral a" "numeral b", where ?'a = rat] by simp

lemma ceiling_rat_numeral: "\<lceil>numeral a / numeral b :: rat\<rceil> = - (- numeral a div numeral b)"
proof -
  have "\<lceil>numeral a / numeral b :: rat\<rceil> = - \<lfloor>- (numeral a / numeral b :: rat)\<rfloor>"
    by (simp add: ceiling_def)
  also have "- (numeral a / numeral b :: rat) = of_int (- numeral a) / of_int (numeral b)"
    by simp
  also have "\<lfloor>\<dots>\<rfloor> = - numeral a div numeral b"
    by (rule floor_divide_of_int_eq)
  finally show ?thesis .
qed

text \<open>
  The equations that compute a rounding on numerals. \<open>compute_bitlen\<close> unfolds without
  end on a term that is not a numeral: these are for closed terms only.
\<close>

lemmas f64_eval = rnd_def flog2_def pow2i_def round_half_even_def Let_def compute_bitlen
  floor_rat_numeral ceiling_rat_numeral f64_const_def f64_of_int_def

lemma f64_const_0: "f64_const 0 = Finite False 0"
  by (simp add: f64_const_def rnd_def)

lemma f64_of_int_0: "f64_of_int 0 = Finite False 0"
  by (simp add: f64_of_int_def rnd_def)

lemma f64_const_MInKm: "f64_const MInKm = Finite False 1000"
  by (simp add: MInKm_def f64_eval)


lemma f64_const_hour: "f64_const 3600000000000 = Finite False 3600000000000"
  by (simp add: f64_eval)

lemma Hours_0: "Hours 0 = Finite False 0"
  by (simp add: Hours_def f64_eval)

lemma Hours_30min: "Hours (30 * Minute) = Finite False (1 / 2)"
  by (simp add: Hours_def Minute_def Hour_def signed_divide_int_def signed_modulo_int_def f64_eval)

lemma Hours_90min: "Hours (90 * Minute) = Finite False (3 / 2)"
  by (simp add: Hours_def Minute_def Hour_def signed_divide_int_def signed_modulo_int_def f64_eval)

lemma running_distance:
  "Training_distance (Running_Training main_running) = Finite False (13 / 4)"
  by (simp add: Training_distance_def main_running_def LenStep_const_def MInKm_def f64_eval)

lemma running_meanSpeed:
  "Training_meanSpeed (Running_Training main_running) = Finite False (13 / 2)"
proof -
  have "Duration (Running_Training main_running) = 30 * Minute"
    by (simp add: main_running_def)
  then show ?thesis
    by (simp add: Training_meanSpeed_def running_distance Hours_30min f64_eval)
qed

lemma running_Calories:
  "Running_Calories main_running = Finite False (2664464119775625 / 8796093022208)"
proof -
  have d: "Duration (Running_Training main_running) = 30 * Minute"
    and w: "Weight (Running_Training main_running) = Finite False 85"
    by (simp_all add: main_running_def f64_eval)
  show ?thesis
    by (simp add: Running_Calories_def running_meanSpeed d w Hours_30min MinInHours_def
        CaloriesMeanSpeedMultiplier_def CaloriesMeanSpeedShift_def MInKm_def f64_eval)
qed

section \<open>Rounding keeps the sign and cannot reach zero from a normal number\<close>

lemma pow2i_powi: "pow2i e = 2 powi e"
  by (simp add: pow2i_def power_int_def power_inverse inverse_eq_divide power_one_over)

lemma pow2i_pos: "0 < pow2i e"
  by (simp add: pow2i_powi)

lemma pow2i_add: "pow2i (a + b) = pow2i a * pow2i b"
  by (simp add: pow2i_powi power_int_add)

lemma pow2i_mono: "a \<le> b \<Longrightarrow> pow2i a \<le> pow2i b"
  by (simp add: pow2i_powi power_int_increasing)

lemma pow2i_less_imp: "pow2i a < pow2i b \<Longrightarrow> a < b"
  using pow2i_mono [of b a] by (cases "a < b") auto

lemma flog2_bounds:
  assumes "0 < a"
  shows "pow2i (flog2 a) \<le> a \<and> a < pow2i (flog2 a + 1)"
proof (cases "1 \<le> a")
  case True
  define n where "n = \<lfloor>a\<rfloor>"
  have n: "1 \<le> n" using True by (simp add: n_def le_floor_iff)
  then have b: "2 ^ nat (bitlen n - 1) \<le> n" "n < 2 ^ nat (bitlen n)"
    using bitlen_bounds [of n] by auto
  have b1: "1 \<le> bitlen n" using n by (simp add: bitlen_alt_def)
  have fl: "flog2 a = bitlen n - 1" using True by (simp add: flog2_def n_def)
  have "(of_int ((2::int) ^ nat (bitlen n - 1)) :: rat) \<le> of_int n"
    using b(1) by (simp only: of_int_le_iff)
  also have "\<dots> \<le> a" by (simp add: n_def)
  finally have lo: "pow2i (flog2 a) \<le> a"
    using b1 by (simp add: fl pow2i_def)
  have "a < of_int n + 1" using floor_correct [of a] by (simp add: n_def)
  also have "\<dots> = of_int (n + 1)" by simp
  also have "\<dots> \<le> (of_int ((2::int) ^ nat (bitlen n)) :: rat)"
  proof -
    have "n + 1 \<le> 2 ^ nat (bitlen n)" using b(2) by simp
    then show ?thesis by (simp only: of_int_le_iff)
  qed
  finally have hi: "a < pow2i (flog2 a + 1)"
    using b1 by (simp add: fl pow2i_def)
  from lo hi show ?thesis ..
next
  case False
  define c where "c = \<lceil>1 / a\<rceil>"
  define m where "m = c - 1"
  have inv: "1 < 1 / a" using assms False by (simp add: field_simps)
  then have "1 < c" by (simp add: c_def less_ceiling_iff)
  then have m: "1 \<le> m" by (simp add: m_def)
  then have b: "2 ^ nat (bitlen m - 1) \<le> m" "m < 2 ^ nat (bitlen m)"
    using bitlen_bounds [of m] by auto
  have b1: "1 \<le> bitlen m" using m by (simp add: bitlen_alt_def)
  have fl: "flog2 a = - bitlen m" using False by (simp add: flog2_def c_def m_def)
  have "1 / a \<le> of_int c" by (simp add: c_def)
  also have "\<dots> = of_int (m + 1)" by (simp add: m_def)
  also have "\<dots> \<le> (of_int ((2::int) ^ nat (bitlen m)) :: rat)"
  proof -
    have "m + 1 \<le> 2 ^ nat (bitlen m)" using b(2) by simp
    then show ?thesis by (simp only: of_int_le_iff)
  qed
  finally have "1 / a \<le> 2 ^ nat (bitlen m)" by simp
  then have lo: "pow2i (flog2 a) \<le> a"
    using assms b1 by (simp add: fl pow2i_def field_simps)
  have "(of_int ((2::int) ^ nat (bitlen m - 1)) :: rat) \<le> of_int m"
    using b(1) by (simp only: of_int_le_iff)
  also have "of_int m < 1 / a"
    using ceiling_correct [of "1 / a"] by (simp add: m_def c_def)
  finally have up: "2 ^ nat (bitlen m - 1) < 1 / a" by simp
  have "pow2i (flog2 a + 1) = 1 / 2 ^ nat (bitlen m - 1)"
  proof (cases "bitlen m = 1")
    case True
    then show ?thesis by (simp add: fl pow2i_def)
  next
    case False
    with b1 have "1 < bitlen m" by simp
    then show ?thesis by (simp add: fl pow2i_def)
  qed
  moreover have "a < 1 / 2 ^ nat (bitlen m - 1)"
    using up assms by (simp add: field_simps)
  ultimately have hi: "a < pow2i (flog2 a + 1)" by simp
  from lo hi show ?thesis ..
qed

lemma flog2_ge: "0 < a \<Longrightarrow> pow2i k \<le> a \<Longrightarrow> k \<le> flog2 a"
proof -
  assume "0 < a" "pow2i k \<le> a"
  then have "pow2i k < pow2i (flog2 a + 1)"
    using flog2_bounds [of a] by simp
  then show ?thesis using pow2i_less_imp by fastforce
qed

lemma round_half_even_ge_floor: "\<lfloor>q\<rfloor> \<le> round_half_even q"
  by (simp add: round_half_even_def Let_def)

lemma round_half_even_ge: "of_int n \<le> q \<Longrightarrow> n \<le> round_half_even q"
proof -
  assume "of_int n \<le> q"
  then have "n \<le> \<lfloor>q\<rfloor>" by (simp add: le_floor_iff)
  also have "\<dots> \<le> round_half_even q" by (rule round_half_even_ge_floor)
  finally show ?thesis .
qed

lemma rnd_mag_ge0: "0 \<le> a \<Longrightarrow> mag_ge 0 s (rnd s a)"
proof (cases "a = 0")
  case True
  then show ?thesis by (simp add: rnd_def)
next
  case False
  assume "0 \<le> a"
  define u where "u = pow2i (max (flog2 a) (- 1022) - 52)"
  have u: "0 < u" by (simp add: u_def pow2i_pos)
  with \<open>0 \<le> a\<close> have "of_int 0 \<le> a / u" by simp
  then have "0 \<le> round_half_even (a / u)" by (rule round_half_even_ge)
  then have "0 \<le> of_int (round_half_even (a / u)) * u" using u by simp
  then show ?thesis using False by (simp add: rnd_def Let_def u_def)
qed

lemma rnd_mag_ge:
  assumes "pow2i k \<le> a" "- 1022 \<le> k"
  shows "mag_ge (pow2i k) s (rnd s a)"
proof -
  have a: "0 < a" using assms(1) pow2i_pos [of k] by simp
  have ke: "k \<le> flog2 a" using a assms(1) by (rule flog2_ge)
  define e where "e = flog2 a"
  have e: "max (flog2 a) (- 1022) = e" using ke assms(2) by (simp add: e_def)
  define u where "u = pow2i (e - 52)"
  have u: "0 < u" by (simp add: u_def pow2i_pos)
  have "pow2i e = pow2i 52 * u" unfolding u_def by (simp flip: pow2i_add)
  moreover have "pow2i e \<le> a" using flog2_bounds [OF a] by (simp add: e_def)
  ultimately have "pow2i 52 \<le> a / u" using u by (simp add: field_simps)
  then have "of_int (2 ^ 52) \<le> a / u" by (simp add: pow2i_def)
  then have "2 ^ 52 \<le> round_half_even (a / u)" by (rule round_half_even_ge)
  then have "(of_int (2 ^ 52) :: rat) \<le> of_int (round_half_even (a / u))"
    by (simp only: of_int_le_iff)
  then have "pow2i 52 * u \<le> of_int (round_half_even (a / u)) * u"
    using u by (simp add: pow2i_def)
  then have "pow2i e \<le> of_int (round_half_even (a / u)) * u"
    using \<open>pow2i e = pow2i 52 * u\<close> by simp
  moreover have "pow2i k \<le> pow2i e" using ke by (simp add: e_def pow2i_mono)
  ultimately have "pow2i k \<le> of_int (round_half_even (a / u)) * u" by simp
  then show ?thesis using a e by (simp add: rnd_def Let_def u_def)
qed

lemma fdiv_mag_ge:
  assumes "mag_ge b s x" "0 < c" "pow2i k * c \<le> b" "- 1022 \<le> k"
  shows "mag_ge (pow2i k) s (fdiv x (Finite False c))"
proof (cases x)
  case (Finite t r)
  with assms have "pow2i k \<le> r / c" by (simp add: field_simps)
  from rnd_mag_ge [OF this assms(4), of s] Finite assms show ?thesis by simp
qed (use assms in simp_all)

lemma fdiv_mag_ge0:
  assumes "mag_ge 0 s x" "0 < c"
  shows "mag_ge 0 s (fdiv x (Finite False c))"
proof (cases x)
  case (Finite t r)
  with assms have "0 \<le> r / c" by simp
  from rnd_mag_ge0 [OF this, of s] Finite assms show ?thesis by simp
qed (use assms in simp_all)

lemma mag_ge_not_zero: "mag_ge b s x \<Longrightarrow> 0 < b \<Longrightarrow> \<not> f64_eq x (Finite False 0)"
  by (cases x) auto

lemma fadd_same_sign:
  assumes "mag_ge b s x" "mag_ge 0 s y" "pow2i k \<le> b" "- 1022 \<le> k"
  shows "mag_ge (pow2i k) s (fadd x y)"
proof (cases x)
  case x: (Finite t r)
  show ?thesis
  proof (cases y)
    case y: (Finite t' r')
    have r: "pow2i k \<le> r" "0 \<le> r'" "t = s" "t' = s" using assms x y by simp_all
    have p: "0 < pow2i k" by (rule pow2i_pos)
    define v where "v = sval s r + sval s r'"
    have v: "\<bar>v\<bar> = r + r'" "v \<noteq> 0" "(v < 0) = s"
      using r p by (cases s; simp add: v_def)+
    have "pow2i k \<le> \<bar>v\<bar>" using v r by simp
    from rnd_mag_ge [OF this assms(4), of s] show ?thesis
      using x y r v by (simp add: Let_def v_def)
  qed (use assms x in simp_all)
next
  case x: (Inf t)
  then show ?thesis using assms by (cases y) simp_all
qed (use assms in simp)

lemma fadd_zero_left:
  assumes "mag_ge (pow2i k) s y" "- 1022 \<le> k"
  shows "mag_ge (pow2i k) s (fadd (Finite False 0) y)"
proof (cases y)
  case y: (Finite t r)
  have r: "pow2i k \<le> r" "t = s" using assms y by simp_all
  have p: "0 < pow2i k" by (rule pow2i_pos)
  have v: "\<bar>sval s r\<bar> = r" "sval s r \<noteq> 0" "(sval s r < 0) = s"
    using r p by (cases s; simp)+
  from rnd_mag_ge [OF r(1) assms(2), of s] show ?thesis
    using y r v by (simp add: Let_def)
qed (use assms in simp_all)

lemma fadd_zero_right:
  assumes "mag_ge (pow2i k) s x" "- 1022 \<le> k"
  shows "mag_ge (pow2i k) s (fadd x (Finite t 0))"
proof (cases x)
  case x: (Finite t' r)
  have r: "pow2i k \<le> r" "t' = s" using assms x by simp_all
  have p: "0 < pow2i k" by (rule pow2i_pos)
  have v: "\<bar>sval s r\<bar> = r" "sval s r \<noteq> 0" "(sval s r < 0) = s"
    using r p by (cases s; simp)+
  from rnd_mag_ge [OF r(1) assms(2), of s] show ?thesis
    using x r v by (simp add: Let_def)
qed (use assms in simp_all)

lemma Hours_nonzero:
  assumes "d \<noteq> 0"
  shows "\<not> f64_eq (Hours d) (Finite False 0)"
proof -
  define p where "p = \<bar>d\<bar> div Hour"
  define q where "q = \<bar>d\<bar> mod Hour"
  define s where "s = (d < 0)"
  have H: "Hour = 3600000000000" by (simp add: Hour_def Minute_def)
  have pq: "0 \<le> p" "0 \<le> q" "q < Hour" "\<bar>d\<bar> = p * Hour + q"
    by (simp_all add: p_def q_def H pos_imp_zdiv_nonneg_iff)
  have hour: "d sdiv Hour = (if s then - p else p)" and nsec: "d smod Hour = (if s then - q else q)"
    using assms by (simp_all add: signed_divide_int_def signed_modulo_int_def p_def q_def s_def H sgn_if)
  have X: "f64_of_int (d sdiv Hour) = rnd (s \<and> 0 < p) (of_int p)"
    using pq by (auto simp: f64_of_int_def hour)
  have Y: "f64_of_int (d smod Hour) = rnd (s \<and> 0 < q) (of_int q)"
    using pq by (auto simp: f64_of_int_def nsec)
  define y where "y = fdiv (rnd (s \<and> 0 < q) (of_int q)) (Finite False 3600000000000)"
  have Hd: "Hours d = fadd (rnd (s \<and> 0 < p) (of_int p)) y"
    by (simp add: Hours_def Let_def X Y f64_const_hour y_def)
  have k: "- 1022 \<le> (- 42 :: int)" by simp
  have y1: "mag_ge (pow2i (- 42)) s y" if "0 < q"
  proof -
    have "pow2i 0 \<le> of_int q" using that by (simp add: pow2i_def)
    then have "mag_ge (pow2i 0) s (rnd s (of_int q))" by (rule rnd_mag_ge) simp
    moreover have "pow2i (- 42) * 3600000000000 \<le> pow2i 0" by (simp add: pow2i_def)
    ultimately show ?thesis unfolding y_def using that k
      by (simp add: fdiv_mag_ge)
  qed
  have y0: "mag_ge 0 (s \<and> 0 < q) y"
    unfolding y_def by (rule fdiv_mag_ge0) (simp_all add: rnd_mag_ge0 pq)
  show ?thesis
  proof (cases "0 < p")
    case True
    then have "pow2i 0 \<le> of_int p" by (simp add: pow2i_def)
    then have x: "mag_ge (pow2i 0) s (rnd s (of_int p))" by (rule rnd_mag_ge) simp
    have "mag_ge (pow2i 0) s (fadd (rnd s (of_int p)) y)"
    proof (cases "0 < q")
      case True
      with y0 have "mag_ge 0 s y" by simp
      with x show ?thesis by (rule fadd_same_sign) simp_all
    next
      case False
      with pq have "q = 0" by simp
      then have "y = Finite False 0" by (simp add: y_def rnd_def)
      with x show ?thesis by (simp add: fadd_zero_right)
    qed
    then show ?thesis using True by (simp add: Hd mag_ge_not_zero pow2i_pos)
  next
    case False
    with pq have p0: "p = 0" by simp
    with pq assms have "0 < q" by auto
    then have "mag_ge (pow2i (- 42)) s y" by (rule y1)
    then have "mag_ge (pow2i (- 42)) s (fadd (Finite False 0) y)"
      by (rule fadd_zero_left) simp
    then show ?thesis using p0 by (simp add: Hd rnd_def mag_ge_not_zero pow2i_pos)
  qed
qed

lemma Hours_eq_zero_iff: "f64_eq (Hours d) (f64_const 0) \<longleftrightarrow> d = 0"
  using Hours_nonzero [of d] by (auto simp: f64_const_0 Hours_0)

section \<open>Values that are not numbers\<close>

lemma rnd_not_NaN: "rnd s a \<noteq> NaN"
  by (simp add: rnd_def Let_def)


lemma fmul_nonfinite_right: "\<not> is_finite y \<Longrightarrow> \<not> is_finite (fmul x y)"
  by (cases x; cases y) simp_all





section \<open>The sample walk of \<^verbatim>\<open>main\<close>, and the same walk with no height\<close>

lemma Walking_Calories_eq:
  "Walking_Calories w =
     (let speed_ms = fmul (Training_meanSpeed (Walking_Training w)) (f64_const (278 / 1000));
          height_m = fdiv (Height w) (f64_const 100);
          duration_min = fmul (Hours (Duration (Walking_Training w))) (f64_const 60)
      in fmul (fadd (fmul (f64_const (35 / 1000)) (Weight (Walking_Training w)))
                    (fmul (fdiv (math_Pow2 speed_ms) height_m)
                          (fmul (f64_const (29 / 1000)) (Weight (Walking_Training w)))))
              duration_min)"
  by (simp add: Walking_Calories_def CaloriesWeightMultiplier_def
      CaloriesSpeedHeightMultiplier_def KmHInMsec_def CmInM_def MinInHours_def)

lemma Hours_3h45: "Hours (3 * Hour + 45 * Minute) = Finite False (15 / 4)"
  by (simp add: Hours_def Minute_def Hour_def signed_divide_int_def signed_modulo_int_def f64_eval)

lemma walking_distance:
  "Training_distance (Walking_Training main_walking) = Finite False 13"
  by (simp add: Training_distance_def main_walking_def LenStep_const_def MInKm_def f64_eval)

lemma walking_meanSpeed:
  "Training_meanSpeed (Walking_Training main_walking)
     = Finite False (1951559838527215 / 562949953421312)"
proof -
  have "Duration (Walking_Training main_walking) = 3 * Hour + 45 * Minute"
    by (simp add: main_walking_def)
  then show ?thesis
    by (simp add: Training_meanSpeed_def walking_distance Hours_3h45 f64_eval)
qed

lemma walking_speed_ms:
  "fmul (Training_meanSpeed (Walking_Training main_walking)) (f64_const KmHInMsec)
     = Finite False (8680538161769053 / 9007199254740992)"
  by (simp add: walking_meanSpeed KmHInMsec_def f64_eval)

lemma walking_speed_squared:
  "math_Pow2 (Finite False (8680538161769053 / 9007199254740992))
     = Finite False (130714437152639 / 140737488355328)"
  by (simp add: Frexp_def f64_eval)


lemma walking_Calories:
  "Walking_Calories main_walking = Finite False (2084281113186661 / 2199023255552)"
proof -
  have d: "Duration (Walking_Training main_walking) = 3 * Hour + 45 * Minute"
    and w: "Weight (Walking_Training main_walking) = Finite False 85"
    and h: "Height main_walking = Finite False 185"
    by (simp_all add: main_walking_def f64_eval)
  have s: "fmul (Finite False (1951559838527215 / 562949953421312)) (f64_const KmHInMsec)
      = Finite False (8680538161769053 / 9007199254740992)"
    using walking_speed_ms by (simp only: walking_meanSpeed)
  show ?thesis
    unfolding Walking_Calories_def Let_def walking_meanSpeed s walking_speed_squared d w h Hours_3h45
    by (simp add: MinInHours_def CmInM_def CaloriesWeightMultiplier_def
        CaloriesSpeedHeightMultiplier_def f64_eval)
qed

lemma walking_zero_height_Calories:
  "Walking_Calories walking_zero_height = Inf False"
proof -
  have d: "Duration (Walking_Training walking_zero_height) = 3 * Hour + 45 * Minute"
    and w: "Weight (Walking_Training walking_zero_height) = Finite False 85"
    and h: "Height walking_zero_height = Finite False 0"
    and t: "Walking_Training walking_zero_height = Walking_Training main_walking"
    by (simp_all add: walking_zero_height_def main_walking_def f64_eval)
  have s: "fmul (Finite False (1951559838527215 / 562949953421312)) (f64_const KmHInMsec)
      = Finite False (8680538161769053 / 9007199254740992)"
    using walking_speed_ms by (simp only: walking_meanSpeed)
  show ?thesis
    unfolding Walking_Calories_def Let_def d w h
    unfolding t walking_meanSpeed s walking_speed_squared Hours_3h45
    by (simp add: MinInHours_def CmInM_def CaloriesWeightMultiplier_def
        CaloriesSpeedHeightMultiplier_def f64_eval)
qed

section \<open>The text of a float with two decimals\<close>

lemma digit_digit_char: "n < 10 \<Longrightarrow> digit (digit_char n)"
  unfolding digit_def digit_char_def by (rule nth_mem) simp

lemma decimal_digits: "list_all digit (decimal n)"
proof (induction n rule: decimal.induct)
  case (1 n)
  show ?case
  proof (cases "n < 10")
    case True
    then show ?thesis by (subst decimal.simps) (simp add: digit_digit_char)
  next
    case False
    then have "list_all digit (decimal (n div 10))" by (rule "1.IH")
    moreover have "digit (digit_char (n mod 10))" by (simp add: digit_digit_char)
    ultimately show ?thesis using False by (subst decimal.simps) simp
  qed
qed

lemma decimal_nonempty: "decimal n \<noteq> []"
  by (subst decimal.simps) simp

lemma digit_not_minus: "digit c \<Longrightarrow> c \<noteq> CHR ''-''"
  by (auto simp: digit_def)

lemma digit_not_newline: "digit c \<Longrightarrow> c \<noteq> CHR 0x0A"
  by (auto simp: digit_def)

lemma fmt_2f_finite: "two_decimals (fmt_2f (Finite s a))"
proof -
  define n where "n = nat (round_half_even (a * 100))"
  define ip where "ip = decimal (n div 100)"
  have ip: "ip \<noteq> []" "list_all digit ip"
    by (simp_all add: ip_def decimal_nonempty decimal_digits)
  have d1: "digit (digit_char (n mod 100 div 10))" by (rule digit_digit_char) simp
  have d2: "digit (digit_char (n mod 10))" by (rule digit_digit_char) simp
  have f: "fmt_2f (Finite s a) = (if s then ''-'' else []) @ ip @ ''.'' @
      [digit_char (n mod 100 div 10), digit_char (n mod 10)]"
    by (simp add: n_def ip_def Let_def)
  obtain c r where cr: "ip = c # r" "c \<noteq> CHR ''-''"
    using ip digit_not_minus by (cases ip) auto
  show ?thesis
    unfolding f two_decimals_def using ip d1 d2 cr by (cases s) simp_all
qed

lemma fmt_2f_nonfinite: "\<not> is_finite x \<Longrightarrow> \<not> two_decimals (fmt_2f x)"
  by (cases x) (simp_all add: two_decimals_def digit_def)

lemma newlines_append: "newlines (xs @ ys) = newlines xs + newlines ys"
  by (simp add: newlines_def)

lemma newlines_Cons: "newlines (c # xs) = (if c = CHR 0x0A then 1 else 0) + newlines xs"
  by (simp add: newlines_def)

lemma newlines_digits: "list_all digit xs \<Longrightarrow> newlines xs = 0"
  by (induction xs) (auto simp: newlines_def dest: digit_not_newline)

lemma newlines_fmt_2f: "newlines (fmt_2f x) = 0"
proof (cases x)
  case (Finite s a)
  have "newlines [digit_char m, digit_char k] = 0" if "m < 10" "k < 10" for m k
    using that by (simp add: newlines_digits digit_digit_char)
  then show ?thesis
    using Finite by (simp add: Let_def newlines_append newlines_digits decimal_digits)
      (simp add: newlines_def)
qed (simp_all add: newlines_def)

lemma newlines_absent: "CHR 0x0A \<notin> set xs \<Longrightarrow> newlines xs = 0"
  by (induction xs) (auto simp: newlines_def)

lemma newlines_labels:
  "newlines label_type = 0" "newlines label_duration = 0" "newlines unit_duration = 0"
  "newlines label_distance = 0" "newlines unit_distance = 0" "newlines label_speed = 0"
  "newlines unit_speed = 0" "newlines label_calories = 0"
  by (simp_all add: newlines_def label_type_def label_duration_def unit_duration_def
      label_distance_def unit_distance_def label_speed_def unit_speed_def label_calories_def)

lemma newlines_String:
  assumes "CHR 0x0A \<notin> set (TrainingType (InfoMessage_Training i))"
    and "CHR 0x0A \<notin> set (fmt_v (Minutes (Duration (InfoMessage_Training i))))"
  shows "newlines (InfoMessage_String fmt_v i) = 5"
proof -
  have "newlines [] = 0" by (simp add: newlines_def)
  then show ?thesis
    using assms
    by (simp add: InfoMessage_String_def newlines_append newlines_Cons newlines_labels
        newlines_fmt_2f newlines_absent)
qed


lemma running_summary:
  "Running_TrainingInfo main_running =
     \<lparr>InfoMessage_Training = Running_Training main_running,
      Distance = Finite False (13 / 4), Speed = Finite False (13 / 2),
      Calories = Finite False (2664464119775625 / 8796093022208)\<rparr>"
  by (simp add: Running_TrainingInfo_def running_distance running_meanSpeed running_Calories)

lemma fmt_2f_running:
  "fmt_2f (Finite False (13 / 4)) = ''3.25''"
  "fmt_2f (Finite False (13 / 2)) = ''6.50''"
  "fmt_2f (Finite False (2664464119775625 / 8796093022208)) = ''302.91''"
  by (simp_all add: round_half_even_def Let_def floor_rat_numeral decimal.simps digit_char_def)

section \<open>Mean speed\<close>

text \<open>
  C1. When the duration in hours compares equal to zero, the mean speed is the float
  \<open>+0\<close>: for the base \<^verbatim>\<open>meanSpeed\<close>, for the one of \<^verbatim>\<open>Swimming\<close>, and so for the
  speed of the summary of every value of the interface. Nothing is divided.
\<close>

theorem mean_speed_zero_duration:
  assumes "f64_eq (Hours (Duration t)) (f64_const 0)"
  shows "Training_meanSpeed t = Finite False 0 \<and>
         (Swimming_Training s = t \<longrightarrow> Swimming_meanSpeed s = Finite False 0) \<and>
         (embedded c = t \<longrightarrow> Speed (CaloriesCalculator_TrainingInfo c) = Finite False 0)"
proof -
  have base: "Training_meanSpeed t = Finite False 0"
    using assms by (simp add: Training_meanSpeed_def f64_const_0)
  have swim: "Swimming_meanSpeed s = Finite False 0" if "Swimming_Training s = t"
    using assms that by (simp add: Swimming_meanSpeed_def f64_const_0)
  have info: "Speed (CaloriesCalculator_TrainingInfo c) = Finite False 0" if "embedded c = t"
  proof (cases c)
    case (OfSwimming s')
    with that assms show ?thesis
      by (simp add: Swimming_TrainingInfo_def Swimming_meanSpeed_def f64_const_0)
  qed (use that base in \<open>simp_all add: Training_TrainingInfo_def Running_TrainingInfo_def
         Walking_TrainingInfo_def\<close>)
  from base swim info show ?thesis by blast
qed

theorem mean_speed_zero_duration_witness:
  "f64_eq (Hours (Duration training_zero_duration)) (f64_const 0) \<and>
   Training_meanSpeed training_zero_duration = Finite False 0 \<and>
   Swimming_meanSpeed \<lparr>Swimming_Training = training_zero_duration, LengthPool = 50, CountPool = 5\<rparr>
     = Finite False 0 \<and>
   Speed (CaloriesCalculator_TrainingInfo
      (OfWalking \<lparr>Walking_Training = training_zero_duration, Height = f64_const 185\<rparr>))
     = Finite False 0"
proof -
  have h: "f64_eq (Hours (Duration training_zero_duration)) (f64_const 0)"
    by (simp add: training_zero_duration_def Hours_0 f64_const_0)
  show ?thesis
    using h mean_speed_zero_duration [OF h,
      of "\<lparr>Swimming_Training = training_zero_duration, LengthPool = 50, CountPool = 5\<rparr>"
         "OfWalking \<lparr>Walking_Training = training_zero_duration, Height = f64_const 185\<rparr>"]
    by simp
qed

text \<open>
  C4. For a swim of a duration that is not zero the mean speed is
  \<open>pool_length_m * lap_count / 1000 / duration_hours\<close>, computed in float64 from the two
  integers converted one by one; the number of strokes and their length do not occur.
  A duration is not zero exactly when its hours do not compare equal to zero
  (\<open>Hours_eq_zero_iff\<close>).
\<close>

theorem Swimming_meanSpeed_formula:
  assumes "Duration (Swimming_Training s) \<noteq> 0"
  shows "Swimming_meanSpeed s =
     fdiv (fdiv (fmul (f64_of_int (LengthPool s)) (f64_of_int (CountPool s))) (f64_const 1000))
          (Hours (Duration (Swimming_Training s)))"
  using assms by (simp add: Swimming_meanSpeed_def Hours_eq_zero_iff MInKm_def)

lemma swimming_meanSpeed:
  "fdiv (fdiv (fmul (f64_of_int 50) (f64_of_int 5)) (f64_const 1000)) (Finite False (3 / 2))
     = Finite False (6004799503160661 / 36028797018963968)"
  by (simp add: f64_eval)

theorem Swimming_meanSpeed_formula_witness:
  "Duration (Swimming_Training main_swimming) \<noteq> 0 \<and>
   Swimming_meanSpeed main_swimming = Finite False (6004799503160661 / 36028797018963968)"
proof -
  have h: "Duration (Swimming_Training main_swimming) \<noteq> 0"
    by (simp add: main_swimming_def Minute_def)
  have d: "Duration (Swimming_Training main_swimming) = 90 * Minute"
    and p: "LengthPool main_swimming = 50" "CountPool main_swimming = 5"
    by (simp_all add: main_swimming_def)
  from h Swimming_meanSpeed_formula [OF h] show ?thesis
    by (simp only: d p Hours_90min swimming_meanSpeed simp_thms)
qed

section \<open>Distance\<close>

text \<open>
  C6, as the specification states it: with no repetition the distance is zero. With a
  step length that is infinite the product \<open>0 * step_length\<close> is not a number, and the
  distance of the summary is NaN, which compares equal to nothing.
\<close>

theorem distance_no_steps_not_zero:
  "Action (embedded (OfRunning \<lparr>Running_Training = training_inf_step\<rparr>)) = 0 \<and>
   Distance (CaloriesCalculator_TrainingInfo (OfRunning \<lparr>Running_Training = training_inf_step\<rparr>))
     = NaN \<and>
   \<not> f64_eq
      (Distance (CaloriesCalculator_TrainingInfo
         (OfRunning \<lparr>Running_Training = training_inf_step\<rparr>)))
      (f64_const 0)"
  by (simp add: Running_TrainingInfo_def Training_distance_def training_inf_step_def
      f64_of_int_0)

text \<open>
  C6, amended. For every value of the interface, a swim included, the distance of the
  summary is \<open>repetitions * step_length_m / 1000\<close> in float64; the pool of a swim has no
  part in it; and with no repetition and a step length that is a number, the distance
  compares equal to zero.
\<close>

theorem summary_distance:
  "Distance (CaloriesCalculator_TrainingInfo c) =
     fdiv (fmul (f64_of_int (Action (embedded c))) (LenStep (embedded c))) (f64_const 1000) \<and>
   Distance (Swimming_TrainingInfo (s\<lparr>LengthPool := l, CountPool := n\<rparr>)) =
     Distance (Swimming_TrainingInfo s) \<and>
   (Action (embedded c) = 0 \<and> is_finite (LenStep (embedded c)) \<longrightarrow>
      f64_eq (Distance (CaloriesCalculator_TrainingInfo c)) (f64_const 0))"
proof -
  have d: "Distance (CaloriesCalculator_TrainingInfo c) = Training_distance (embedded c)"
    by (cases c)
      (simp_all add: Training_TrainingInfo_def Running_TrainingInfo_def
        Walking_TrainingInfo_def Swimming_TrainingInfo_def)
  have z: "f64_eq (Training_distance t) (f64_const 0)"
    if "Action t = 0" "is_finite (LenStep t)" for t
    using that
    by (cases "LenStep t")
      (simp_all add: Training_distance_def f64_of_int_0 f64_const_MInKm f64_const_0 rnd_def)
  show ?thesis
    using z [of "embedded c"]
    by (simp add: d Training_distance_def MInKm_def Swimming_TrainingInfo_def)
qed

theorem summary_distance_witness:
  "Action (embedded (OfSwimming \<lparr>Swimming_Training = training_no_steps, LengthPool = 50,
      CountPool = 5\<rparr>)) = 0 \<and>
   is_finite (LenStep (embedded (OfSwimming \<lparr>Swimming_Training = training_no_steps,
      LengthPool = 50, CountPool = 5\<rparr>))) \<and>
   f64_eq (Distance (CaloriesCalculator_TrainingInfo (OfSwimming
      \<lparr>Swimming_Training = training_no_steps, LengthPool = 50, CountPool = 5\<rparr>)))
     (f64_const 0)"
proof -
  let ?c = "OfSwimming \<lparr>Swimming_Training = training_no_steps, LengthPool = 50, CountPool = 5\<rparr>"
  have a: "Action (embedded ?c) = 0"
    by (simp add: training_no_steps_def)
  have f: "is_finite (LenStep (embedded ?c))"
    by (simp add: training_no_steps_def LenStep_const_def f64_eval)
  from a f summary_distance [where c = ?c and s = main_swimming and l = 25 and n = 10]
  show ?thesis by blast
qed

section \<open>Calories\<close>

text \<open>
  C2. The calories of a run are \<open>(18 * mean_speed_kmh + 1.79) * weight_kg / 1000 *
  duration_min\<close>, computed in float64 from left to right, where the mean speed is the
  base one and the minutes are the hours times 60.
\<close>

theorem Running_Calories_formula:
  "Running_Calories r =
     (let mean_speed_kmh = Training_meanSpeed (Running_Training r);
          duration_min = fmul (Hours (Duration (Running_Training r))) (f64_const 60)
      in fmul (fdiv (fmul (fadd (fmul (f64_const 18) mean_speed_kmh) (f64_const (179 / 100)))
                          (Weight (Running_Training r)))
                    (f64_const 1000))
              duration_min)"
  by (simp add: Running_Calories_def CaloriesMeanSpeedMultiplier_def CaloriesMeanSpeedShift_def
      MInKm_def MinInHours_def)

text \<open>
  C3. For a walk whose height is not zero the calories are
  \<open>(0.035 * weight_kg + (speed_ms ^ 2 / height_m) * 0.029 * weight_kg) * duration_min\<close>
  with \<open>speed_ms = mean_speed * 0.278\<close>, \<open>height_m = height_cm / 100\<close> and
  \<open>duration_min = duration_hours * 60\<close>, computed in float64; the square is
  \<^verbatim>\<open>math.Pow(speed_ms, 2)\<close>, and of the product of three factors the code computes
  \<open>0.029 * weight_kg\<close> first.
\<close>

theorem Walking_Calories_formula:
  assumes "\<not> f64_eq (Height w) (f64_const 0)"
  shows "Walking_Calories w =
     (let speed_ms = fmul (Training_meanSpeed (Walking_Training w)) (f64_const (278 / 1000));
          height_m = fdiv (Height w) (f64_const 100);
          duration_min = fmul (Hours (Duration (Walking_Training w))) (f64_const 60)
      in fmul (fadd (fmul (f64_const (35 / 1000)) (Weight (Walking_Training w)))
                    (fmul (fdiv (math_Pow2 speed_ms) height_m)
                          (fmul (f64_const (29 / 1000)) (Weight (Walking_Training w)))))
              duration_min)"
  by (rule Walking_Calories_eq)

theorem Walking_Calories_formula_witness:
  "\<not> f64_eq (Height main_walking) (f64_const 0) \<and>
   Walking_Calories main_walking =
     (let speed_ms = fmul (Training_meanSpeed (Walking_Training main_walking))
                          (f64_const (278 / 1000));
          height_m = fdiv (Height main_walking) (f64_const 100);
          duration_min = fmul (Hours (Duration (Walking_Training main_walking))) (f64_const 60)
      in fmul (fadd (fmul (f64_const (35 / 1000)) (Weight (Walking_Training main_walking)))
                    (fmul (fdiv (math_Pow2 speed_ms) height_m)
                          (fmul (f64_const (29 / 1000)) (Weight (Walking_Training main_walking)))))
              duration_min) \<and>
   Walking_Calories main_walking = Finite False (2084281113186661 / 2199023255552)"
proof -
  have h: "\<not> f64_eq (Height main_walking) (f64_const 0)"
    by (simp add: main_walking_def f64_eval)
  from h Walking_Calories_formula [OF h] walking_Calories show ?thesis
    by (simp only: simp_thms)
qed



text \<open>
  C5. The calories of a swim are \<open>(mean_speed + 1.1) * 2 * weight_kg * duration_hours\<close>,
  computed in float64 from left to right, with the mean speed of \<^verbatim>\<open>Swimming\<close>, the one
  from the pool's length and the number of laps.
\<close>

theorem Swimming_Calories_formula:
  "Swimming_Calories s =
     fmul (fmul (fmul (fadd (Swimming_meanSpeed s) (f64_const (11 / 10))) (f64_const 2))
                (Weight (Swimming_Training s)))
          (Hours (Duration (Swimming_Training s)))"
  by (simp add: Swimming_Calories_def SwimmingCaloriesMeanSpeedShift_def
      SwimmingCaloriesWeightMultiplier_def)

section \<open>The sample run of \<^verbatim>\<open>main\<close>\<close>

text \<open>
  C7, as the specification states it: the calories of the sample run (85 kg, 30 minutes,
  5000 steps of 0.65 m) are within 0.01 of 305.32. They are not.
\<close>

theorem running_sample_not_305_32:
  "\<not> close_to (Running_Calories main_running) (30532 / 100) (1 / 100)"
  by (simp add: running_Calories)

text \<open>
  C7, amended. For the sample run the distance is exactly 3.25 km and the mean speed
  exactly 6.5 km/h; the calories are within 0.01 of \<open>(18 * 6.5 + 1.79) * 85 / 1000 * 30\<close>,
  and that number is 302.9145.
\<close>

theorem running_sample_values:
  "Training_distance (Running_Training main_running) = Finite False (13 / 4) \<and>
   Training_meanSpeed (Running_Training main_running) = Finite False (13 / 2) \<and>
   close_to (Running_Calories main_running)
     ((18 * (13 / 2) + 179 / 100) * 85 / 1000 * 30) (1 / 100) \<and>
   (18 * (13 / 2) + 179 / 100) * 85 / 1000 * 30 = (3029145 / 10000 :: rat)"
  by (simp add: running_distance running_meanSpeed running_Calories)

section \<open>The text of a summary\<close>

text \<open>
  C9, as the specification states it: the calories of every summary are printed with two
  decimal digits. The summary of the sample walk with no height has the calories
  \<open>+Inf\<close>, and the text has no digit.
\<close>

theorem infinite_calories_not_two_decimals:
  "fmt_2f (Calories (CaloriesCalculator_TrainingInfo (OfWalking walking_zero_height))) = ''+Inf'' \<and>
   \<not> two_decimals
      (fmt_2f (Calories (CaloriesCalculator_TrainingInfo (OfWalking walking_zero_height))))"
  by (simp add: Walking_TrainingInfo_def walking_zero_height_Calories two_decimals_def digit_def)

text \<open>
  C9, amended. The text of a summary is five lines in this order, each ended by a
  newline: the type of the training, the minutes as \<^verbatim>\<open>%v\<close> prints them, the distance,
  the mean speed, the calories. Each of the last three has exactly two decimal digits
  when the float is a number, of any size. The text has five newlines when the type of the
  training and the text of the minutes have none.
\<close>

theorem InfoMessage_String_lines:
  "InfoMessage_String fmt_v i =
     concat (map (\<lambda>l. l @ [CHR 0x0A])
       [label_type @ TrainingType (InfoMessage_Training i),
        label_duration @ fmt_v (Minutes (Duration (InfoMessage_Training i))) @ unit_duration,
        label_distance @ fmt_2f (Distance i) @ unit_distance,
        label_speed @ fmt_2f (Speed i) @ unit_speed,
        label_calories @ fmt_2f (Calories i)]) \<and>
   (is_finite (Distance i) \<longrightarrow> two_decimals (fmt_2f (Distance i))) \<and>
   (is_finite (Speed i) \<longrightarrow> two_decimals (fmt_2f (Speed i))) \<and>
   (is_finite (Calories i) \<longrightarrow> two_decimals (fmt_2f (Calories i))) \<and>
   (CHR 0x0A \<notin> set (TrainingType (InfoMessage_Training i)) \<and>
    CHR 0x0A \<notin> set (fmt_v (Minutes (Duration (InfoMessage_Training i)))) \<longrightarrow>
      newlines (InfoMessage_String fmt_v i) = 5)"
proof -
  have two: "two_decimals (fmt_2f x)" if "is_finite x" for x
    using that by (cases x) (simp_all only: fmt_2f_finite is_finite.simps)
  show ?thesis
    using two newlines_String [of i fmt_v]
    by (simp add: InfoMessage_String_def)
qed

theorem InfoMessage_String_lines_witness:
  "is_finite (Distance (Running_TrainingInfo main_running)) \<and>
   is_finite (Speed (Running_TrainingInfo main_running)) \<and>
   is_finite (Calories (Running_TrainingInfo main_running)) \<and>
   CHR 0x0A \<notin> set (TrainingType (InfoMessage_Training (Running_TrainingInfo main_running))) \<and>
   CHR 0x0A \<notin> set ((\<lambda>m. ''30'')
      (Minutes (Duration (InfoMessage_Training (Running_TrainingInfo main_running))))) \<and>
   two_decimals (fmt_2f (Distance (Running_TrainingInfo main_running))) \<and>
   two_decimals (fmt_2f (Speed (Running_TrainingInfo main_running))) \<and>
   two_decimals (fmt_2f (Calories (Running_TrainingInfo main_running))) \<and>
   newlines (InfoMessage_String (\<lambda>m. ''30'') (Running_TrainingInfo main_running)) = 5 \<and>
   fmt_2f (Distance (Running_TrainingInfo main_running)) = ''3.25'' \<and>
   fmt_2f (Speed (Running_TrainingInfo main_running)) = ''6.50'' \<and>
   fmt_2f (Calories (Running_TrainingInfo main_running)) = ''302.91''"
proof -
  have f: "is_finite (Distance (Running_TrainingInfo main_running))"
    "is_finite (Speed (Running_TrainingInfo main_running))"
    "is_finite (Calories (Running_TrainingInfo main_running))"
    by (simp_all add: running_summary)
  have n: "CHR 0x0A \<notin> set (TrainingType (InfoMessage_Training (Running_TrainingInfo main_running)))"
    "CHR 0x0A \<notin> set ((\<lambda>m. ''30'')
      (Minutes (Duration (InfoMessage_Training (Running_TrainingInfo main_running)))))"
    by (simp_all add: Running_TrainingInfo_def main_running_def)
  have t: "fmt_2f (Distance (Running_TrainingInfo main_running)) = ''3.25''"
    "fmt_2f (Speed (Running_TrainingInfo main_running)) = ''6.50''"
    "fmt_2f (Calories (Running_TrainingInfo main_running)) = ''302.91''"
    by (simp_all only: running_summary fmt_2f_running InfoMessage.simps)
  from f n t InfoMessage_String_lines [of "\<lambda>m. ''30''" "Running_TrainingInfo main_running"]
  show ?thesis by blast
qed

section \<open>\<^verbatim>\<open>ReadData\<close>\<close>

text \<open>
  C10. For every value of the interface the calories of its summary are the calories its
  own method returns, so that the assignment in \<^verbatim>\<open>ReadData\<close> changes nothing:
  \<^verbatim>\<open>ReadData\<close> returns the text of the summary.
\<close>

theorem ReadData_is_String_of_TrainingInfo:
  "Calories (CaloriesCalculator_TrainingInfo c) = CaloriesCalculator_Calories c \<and>
   ReadData fmt_v c = InfoMessage_String fmt_v (CaloriesCalculator_TrainingInfo c)"
  by (cases c)
    (simp_all add: ReadData_def Training_TrainingInfo_def Running_TrainingInfo_def
      Walking_TrainingInfo_def Swimming_TrainingInfo_def)

end
